theory Spec2Isabelle
  imports Main "HOL-Library.Char_ord" "HOL-Library.List_Lexorder" "HOL-Library.Sublist"
begin

section \<open>Python values, exceptions and type constructors\<close>

text \<open>
  The exceptions the argument library can raise: its own classes (argument.py, parser.py)
  and the builtin ones its code lets escape. \<open>PlainNameException\<close> is the bare
  \<open>Exception('Should not have come here. ...')\<close> of \<open>UnparsedArgument.__init__\<close>;
  \<open>SystemExit\<close> is the \<open>sys.exit(0)\<close> of \<open>help\<close>; \<open>NoReturn\<close> stands for a run
  of \<open>get_log_dir\<close> whose directory creation never succeeds.
\<close>

datatype error =
    FormatError | DuplicateError | MultipleMatchError | KeywordError | ParsedError | NArgsError
  | NameError | ValueError | TypeError | KeyError | AttributeError | AssertionError
  | PlainNameException | SystemExit | NoReturn

text \<open>The Python values that defaults, profile entries and command-line tokens carry.\<close>

datatype pyval = VNone | VBool bool | VInt int | VStr string | VTuple "pyval list"

text \<open>The type objects used as \<open>dtype\<close>: \<open>bool\<close>, \<open>int\<close>, \<open>str\<close>, \<open>tuple\<close>, \<open>type(None)\<close>.\<close>

datatype dtype = TBool | TInt | TStr | TTuple | TNoneType

fun py_type :: "pyval \<Rightarrow> dtype" where
  "py_type VNone = TNoneType"
| "py_type (VBool _) = TBool"
| "py_type (VInt _) = TInt"
| "py_type (VStr _) = TStr"
| "py_type (VTuple _) = TTuple"

fun is_tuple :: "pyval \<Rightarrow> bool" where
  "is_tuple (VTuple _) = True"
| "is_tuple _ = False"

fun is_bool :: "pyval \<Rightarrow> bool" where
  "is_bool (VBool _) = True"
| "is_bool _ = False"

text \<open>
  Calling a type object on a value, \<open>dtype(v)\<close>, is Python's business and not code of the
  library: the operations below take it as the parameter \<open>call\<close>, so that what is proved
  of them holds for every behaviour of the constructors.
\<close>

type_synonym ctor = "dtype \<Rightarrow> pyval \<Rightarrow> error + pyval"

definition rbind :: "error + 'a \<Rightarrow> ('a \<Rightarrow> error + 'b) \<Rightarrow> error + 'b" where
  "rbind m f = (case m of Inl e \<Rightarrow> Inl e | Inr x \<Rightarrow> f x)"

fun map_res :: "('a \<Rightarrow> error + 'b) \<Rightarrow> 'a list \<Rightarrow> error + 'b list" where
  "map_res f [] = Inr []"
| "map_res f (x # xs) =
     (case f x of Inl e \<Rightarrow> Inl e
      | Inr y \<Rightarrow> (case map_res f xs of Inl e \<Rightarrow> Inl e | Inr ys \<Rightarrow> Inr (y # ys)))"

fun fold_res :: "('a \<Rightarrow> 's \<Rightarrow> error + 's) \<Rightarrow> 'a list \<Rightarrow> 's \<Rightarrow> error + 's" where
  "fold_res f [] s = Inr s"
| "fold_res f (x # xs) s = (case f x s of Inl e \<Rightarrow> Inl e | Inr s' \<Rightarrow> fold_res f xs s')"

subsection \<open>The builtin constructors, for running the model on concrete inputs\<close>

fun truthy :: "pyval \<Rightarrow> bool" where
  "truthy VNone = False"
| "truthy (VBool b) = b"
| "truthy (VInt i) = (i \<noteq> 0)"
| "truthy (VStr s) = (s \<noteq> [])"
| "truthy (VTuple xs) = (xs \<noteq> [])"

definition is_digit :: "char \<Rightarrow> bool" where
  "is_digit c = (48 \<le> (of_char c :: nat) \<and> (of_char c :: nat) \<le> 57)"

definition parse_nat :: "string \<Rightarrow> nat option" where
  "parse_nat s =
     (if s \<noteq> [] \<and> list_all is_digit s
      then Some (foldl (\<lambda>n c. 10 * n + (of_char c - 48)) 0 s) else None)"

fun parse_int :: "string \<Rightarrow> int option" where
  "parse_int [] = None"
| "parse_int (c # s) =
     (if c = CHR ''-'' then map_option (\<lambda>n. - int n) (parse_nat s)
      else if c = CHR ''+'' then map_option int (parse_nat s)
      else map_option int (parse_nat (c # s)))"

fun show_nat :: "nat \<Rightarrow> string" where
  "show_nat n =
     (if n < 10 then [char_of (48 + n)] else show_nat (n div 10) @ [char_of (48 + n mod 10)])"

definition show_int :: "int \<Rightarrow> string" where
  "show_int i = (if i < 0 then CHR ''-'' # show_nat (nat (- i)) else show_nat (nat i))"

fun join :: "string \<Rightarrow> string list \<Rightarrow> string" where
  "join sep [] = []"
| "join sep [x] = x"
| "join sep (x # y # xs) = x @ sep @ join sep (y # xs)"

fun py_repr :: "pyval \<Rightarrow> string" where
  "py_repr VNone = ''None''"
| "py_repr (VBool b) = (if b then ''True'' else ''False'')"
| "py_repr (VInt i) = show_int i"
| "py_repr (VStr s) = [CHR 0x27] @ s @ [CHR 0x27]"
| "py_repr (VTuple xs) =
     (case xs of [x] \<Rightarrow> ''('' @ py_repr x @ '',)''
      | _ \<Rightarrow> ''('' @ join '', '' (map py_repr xs) @ '')'')"

text \<open>
  \<open>py_call\<close> is \<open>bool\<close>, \<open>int\<close>, \<open>str\<close>, \<open>tuple\<close> and \<open>type(None)\<close> on the values
  above: truth value testing; \<open>int\<close> of an integer, a boolean or a plain decimal literal
  (an optional sign and ASCII digits); \<open>str\<close> of a string (itself) and of the other values
  (their \<open>repr\<close>, strings inside a tuple quoted without escapes); \<open>tuple\<close> of a tuple
  or of a string. It is used only where the model is run on concrete inputs.
\<close>

fun py_call :: ctor where
  "py_call TBool v = Inr (VBool (truthy v))"
| "py_call TInt (VInt i) = Inr (VInt i)"
| "py_call TInt (VBool b) = Inr (VInt (if b then 1 else 0))"
| "py_call TInt (VStr s) = (case parse_int s of None \<Rightarrow> Inl ValueError | Some i \<Rightarrow> Inr (VInt i))"
| "py_call TInt _ = Inl TypeError"
| "py_call TStr (VStr s) = Inr (VStr s)"
| "py_call TStr v = Inr (VStr (py_repr v))"
| "py_call TTuple (VTuple xs) = Inr (VTuple xs)"
| "py_call TTuple (VStr s) = Inr (VTuple (map (\<lambda>c. VStr [c]) s))"
| "py_call TTuple _ = Inl TypeError"
| "py_call TNoneType _ = Inl TypeError"

section \<open>argument.py\<close>

subsection \<open>Name formats\<close>

datatype name_format = Full | Short | Plain

text \<open>\<open>_check_format\<close>: three or more leading hyphens raise \<open>FormatError\<close>.\<close>

definition check_format :: "string \<Rightarrow> error + name_format" where
  "check_format name =
     (if prefix ''--'' name \<and> \<not> prefix ''---'' name then Inr Full
      else if prefix ''-'' name \<and> \<not> prefix ''--'' name then Inr Short
      else if \<not> prefix ''-'' name then Inr Plain
      else Inl FormatError)"

definition canonicalize :: "string \<Rightarrow> error + string" where
  "canonicalize name =
     rbind (check_format name) (\<lambda>fmt. if fmt = Plain then Inr (''--'' @ name) else Inr name)"

subsection \<open>Source and Index\<close>

datatype Source = CONFIG | CLI

datatype Index = Index (source: Source) (idx: int)

text \<open>
  \<open>Index\<close> is a \<open>dataclass(order=True)\<close>: \<open>a < b\<close> compares the field tuples
  \<open>(a.source, a.idx) < (b.source, b.idx)\<close>. Tuple comparison looks for the first position
  where the two differ and compares there. \<open>Source\<close> is a plain \<open>Enum\<close> (not an
  \<open>IntEnum\<close>), whose members are equal only to themselves and define no \<open><\<close>: when the
  sources differ the comparison of the two members raises \<open>TypeError\<close>; when they are the
  same member the counters decide.
\<close>

definition Index_lt :: "Index \<Rightarrow> Index \<Rightarrow> error + bool" where
  "Index_lt a b = (if source a = source b then Inr (idx a < idx b) else Inl TypeError)"

subsection \<open>UnparsedArgument\<close>

record UnparsedArgument =
  un_name :: string
  un_value :: pyval
  un_idx :: Index

text \<open>
  \<open>UnparsedArgument.__init__\<close> (source CLI) and \<open>UnparsedConfigArgument\<close> (source CONFIG):
  the class counter \<open>_IDX\<close> of the token's own class is read into the index and incremented;
  the constructor returns the token and the new counter.
\<close>

definition UnparsedArgument_init ::
  "Source \<Rightarrow> int \<Rightarrow> string \<Rightarrow> pyval \<Rightarrow> error + (UnparsedArgument \<times> int)" where
  "UnparsedArgument_init src counter name v =
     rbind (check_format name) (\<lambda>fmt.
       if fmt = Plain then Inl PlainNameException
       else Inr (\<lparr>un_name = name, un_value = v, un_idx = Index src counter\<rparr>, counter + 1))"

subsection \<open>Argument\<close>

text \<open>\<open>nargs\<close> is an \<open>int\<close> or the string \<open>'+'\<close>.\<close>

datatype nargs = NArgs int | NPlus

text \<open>
  A view holds a reference to its backing argument (\<open>_arg\<close>), its own name and its fixed
  value. Arguments are objects shared between the spellings of an index and their views, so
  they live in a store, a list addressed by position; a reference is a position in it.
  References are made by \<open>add_argument\<close> alone, as the position at which it appends the
  new argument, and the store never shrinks.
\<close>

record ArgumentView =
  view_arg :: nat
  view_name :: string
  view_value :: pyval

record Argument =
  full_name :: string
  short_name :: "string option"
  default_value :: pyval
  dtype :: "dtype option"
  help_text :: string
  nargs :: nargs
  unsafe :: bool
  name :: string
  last_idx :: "Index option"
  cur_value :: pyval
  views :: "ArgumentView list"

text \<open>
  The \<open>value\<close> setter, first half: arity validation of a value that is not \<open>None\<close>.
  With \<open>'+'\<close> a value that is not a tuple is wrapped into a one-element tuple.
\<close>

definition check_arity :: "nargs \<Rightarrow> pyval \<Rightarrow> error + pyval" where
  "check_arity n new_value =
     (if new_value \<noteq> VNone then
        (if n = NPlus then
           (if \<not> is_tuple new_value then Inr (VTuple [new_value]) else Inr new_value)
         else if n = NArgs 1 then
           (if is_tuple new_value then Inl FormatError else Inr new_value)
         else if n = NArgs 0 then
           (if \<not> is_bool new_value then Inl ValueError else Inr new_value)
         else
           (case new_value of
              VTuple xs \<Rightarrow> if NArgs (int (length xs)) \<noteq> n then Inl FormatError else Inr new_value
            | _ \<Rightarrow> Inl FormatError))
      else Inr new_value)"

text \<open>Second half: coercion of every element through \<open>_dtype\<close>, when there is one.\<close>

definition coerce :: "ctor \<Rightarrow> dtype option \<Rightarrow> pyval \<Rightarrow> error + pyval" where
  "coerce call dt new_value =
     (case dt of
        Some t \<Rightarrow>
          (if new_value \<noteq> VNone then
             (case new_value of
                VTuple xs \<Rightarrow> rbind (map_res (call t) xs) (\<lambda>ys. Inr (VTuple ys))
              | _ \<Rightarrow> call t new_value)
           else Inr new_value)
      | None \<Rightarrow> Inr new_value)"

definition value_setter :: "ctor \<Rightarrow> Argument \<Rightarrow> pyval \<Rightarrow> error + Argument" where
  "value_setter call self new_value =
     rbind (check_arity (nargs self) new_value) (\<lambda>v1.
     rbind (coerce call (dtype self) v1) (\<lambda>v2.
     Inr (self\<lparr>cur_value := v2\<rparr>)))"

text \<open>
  \<open>Argument.__init__\<close>. The \<open>has_properties\<close> wrapper stores the constructor's
  parameters (\<open>_dtype\<close>, \<open>_default\<close>, ...) before the body runs, so the first assignment
  of \<open>value\<close> sees the declared \<open>dtype\<close>; the type of the default is taken over afterwards.
  \<open>nargs or 1\<close> turns both \<open>None\<close> and \<open>0\<close> into 1.
\<close>

definition Argument_init ::
  "ctor \<Rightarrow> string \<Rightarrow> string option \<Rightarrow> pyval \<Rightarrow> dtype option \<Rightarrow> nargs option \<Rightarrow> bool \<Rightarrow> string
     \<Rightarrow> error + Argument" where
  "Argument_init call fn sn dflt dt na uns hlp =
     rbind (check_format fn) (\<lambda>ffmt.
     if ffmt \<noteq> Full then Inl FormatError else
     rbind (case sn of None \<Rightarrow> Inr Short | Some s \<Rightarrow> check_format s) (\<lambda>sfmt.
     if sfmt \<noteq> Short then Inl FormatError
     else if dt = Some TBool \<and> prefix ''--no_'' fn then Inl FormatError
     else if dt = Some TBool \<and> (case sn of None \<Rightarrow> False | Some s \<Rightarrow> prefix ''-no_'' s)
       then Inl FormatError
     else
       let n1 = (case na of None \<Rightarrow> NArgs 1 | Some n \<Rightarrow> if n = NArgs 0 then NArgs 1 else n);
           n2 = (if dt = Some TBool then NArgs 0 else n1);
           self = \<lparr>full_name = fn, short_name = sn, default_value = dflt, dtype = dt,
                   help_text = hlp, nargs = n2, unsafe = uns, name = drop 2 fn,
                   last_idx = None, cur_value = VNone, views = []\<rparr>
       in rbind (value_setter call self dflt) (\<lambda>self'.
          Inr (if dflt \<noteq> VNone \<and> dt = None then self'\<lparr>dtype := Some (py_type dflt)\<rparr>
               else self'))))"

text \<open>
  \<open>Argument.update\<close>, on the backing argument. For a view (\<open>is_view()\<close>),
  \<open>use_this_view\<close> assigns the view's fixed value; attribute reads and writes of a view
  other than \<open>_arg\<close>, \<open>_value\<close> and \<open>_name\<close> go to the backing argument, so
  \<open>last_idx\<close> is the backing argument's. \<open>fixed\<close> is the view's value when the call
  comes through a view and \<open>None\<close> otherwise.
\<close>

definition update :: "ctor \<Rightarrow> Argument \<Rightarrow> pyval option \<Rightarrow> UnparsedArgument \<Rightarrow> error + Argument" where
  "update call self fixed un_arg =
     rbind (case last_idx self of None \<Rightarrow> Inr True | Some l \<Rightarrow> Index_lt l (un_idx un_arg)) (\<lambda>newer.
     if newer then
       rbind (value_setter call self (case fixed of Some v \<Rightarrow> v | None \<Rightarrow> un_value un_arg)) (\<lambda>self'.
       Inr (self'\<lparr>last_idx := Some (un_idx un_arg)\<rparr>))
     else Inr self)"

section \<open>The name index\<close>

text \<open>
  \<open>SortedStringTrie\<close> (package pytrie) as an association list ordered by key, keys
  compared by code point: item assignment, membership, item deletion, \<open>values()\<close>,
  \<open>values(prefix=p)\<close> (the values under the keys that start with \<open>p\<close>, in key order) and
  \<open>iter_prefix_items(p)\<close> (the items whose key is a prefix of \<open>p\<close>, shortest first, which
  for prefixes of one string is key order).
\<close>

type_synonym 'v trie = "(string \<times> 'v) list"

fun trie_set :: "string \<Rightarrow> 'v \<Rightarrow> 'v trie \<Rightarrow> 'v trie" where
  "trie_set k v [] = [(k, v)]"
| "trie_set k v ((k', v') # t) =
     (if k = k' then (k, v) # t
      else if k < k' then (k, v) # (k', v') # t
      else (k', v') # trie_set k v t)"

definition trie_contains :: "string \<Rightarrow> 'v trie \<Rightarrow> bool" where
  "trie_contains k t = (map_of t k \<noteq> None)"

definition trie_del :: "string \<Rightarrow> 'v trie \<Rightarrow> error + 'v trie" where
  "trie_del k t =
     (if trie_contains k t then Inr (filter (\<lambda>kv. fst kv \<noteq> k) t) else Inl KeyError)"

definition trie_values :: "'v trie \<Rightarrow> 'v list" where
  "trie_values t = map snd t"

definition trie_values_prefix :: "string \<Rightarrow> 'v trie \<Rightarrow> 'v list" where
  "trie_values_prefix p t = map snd (filter (\<lambda>kv. prefix p (fst kv)) t)"

definition trie_iter_prefix_items :: "string \<Rightarrow> 'v trie \<Rightarrow> (string \<times> 'v) list" where
  "trie_iter_prefix_items p t = filter (\<lambda>kv. prefix (fst kv) p) t"

text \<open>
  \<open>_get_argument_from_trie\<close>; \<open>unsafe\<close> is the class attribute \<open>_ParserNode._unsafe\<close>.
  The result \<open>None\<close> is Python's \<open>None\<close>.
\<close>

definition get_argument_from_trie :: "bool \<Rightarrow> string \<Rightarrow> 'v trie \<Rightarrow> error + 'v option" where
  "get_argument_from_trie unsafe_on nm t =
     (case map_of t nm of
        Some a \<Rightarrow> Inr (Some a)
      | None \<Rightarrow>
          (let a = trie_values_prefix nm t in
           if length a > 1 then Inl MultipleMatchError
           else if length a = 0 then (if unsafe_on then Inr None else Inl NameError)
           else Inr (Some (hd a))))"

text \<open>The registered spellings of an index, and those that start with a query.\<close>

definition spellings :: "'v trie \<Rightarrow> string set" where
  "spellings t = fst ` set t"

definition matches :: "string \<Rightarrow> 'v trie \<Rightarrow> string set" where
  "matches n t = {k \<in> spellings t. prefix n k}"

section \<open>parser.py\<close>

text \<open>
  One \<open>_ParserNode\<close> together with the process-wide state its methods read and write:
  the class attribute \<open>_ParserNode._unsafe\<close> (\<open>unsafe_mode\<close>), the module variable
  \<open>_TEST\<close> (\<open>TEST\<close>) and the class counters \<open>UnparsedArgument._IDX\<close> and
  \<open>UnparsedConfigArgument._IDX\<close>. \<open>heap\<close> is the store of the \<open>Argument\<close> objects;
  \<open>_args\<close> maps a spelling to a reference, \<open>_arg_views\<close> to a view. The registry maps a
  profile name to the attributes (\<open>vars\<close>) of the profile object, in their order.
  \<open>_cli_unparsed\<close> is \<open>None\<close> until \<open>parse_args\<close> assigns it and is read only
  afterwards; it starts here as the empty index.
\<close>

record ParserNode =
  heap :: "Argument list"
  args :: "nat trie"
  arg_views :: "ArgumentView trie"
  registry :: "(string \<times> (string \<times> pyval) list) list option"
  parsed :: bool
  cli_unparsed :: "UnparsedArgument trie"
  unsafe_mode :: bool
  TEST :: bool
  cli_IDX :: int
  cfg_IDX :: int

definition kwds :: "string set" where
  "kwds = {''--unsafe'', ''-u'', ''--help'', ''-h'', ''--config'', ''-cfg'', ''--log_dir'', ''-ld'',
           ''--msg'', ''-m''}"

text \<open>\<open>handle_error\<close> raises the error unless the module is in test mode.\<close>

definition handle_error :: "ParserNode \<Rightarrow> error \<Rightarrow> error + unit" where
  "handle_error st e = (if \<not> TEST st then Inl e else Inr ())"

definition check_keywords :: "string option \<Rightarrow> error + unit" where
  "check_keywords nm =
     (case nm of None \<Rightarrow> Inr () | Some n \<Rightarrow> if n \<in> kwds then Inl KeywordError else Inr ())"

text \<open>What a lookup returns: an \<open>Argument\<close> (by reference) or a view of one.\<close>

datatype target = Arg nat | View ArgumentView

fun backing :: "target \<Rightarrow> nat" where
  "backing (Arg r) = r"
| "backing (View v) = view_arg v"

fun fixed_value :: "target \<Rightarrow> pyval option" where
  "fixed_value (Arg r) = None"
| "fixed_value (View v) = Some (view_value v)"

text \<open>A lookup in which \<open>NameError\<close> is caught (\<open>except NameError\<close>) and gives \<open>None\<close>.\<close>

definition catch_NameError :: "error + 'a option \<Rightarrow> error + 'a option" where
  "catch_NameError m = (case m of Inl e \<Rightarrow> if e = NameError then Inr None else Inl e | Inr a \<Rightarrow> Inr a)"

text \<open>
  \<open>_ParserNode.get_argument\<close>. \<open>a_normal != a\<close> is the negation of \<open>Argument.__eq__\<close>,
  which for a view on the right compares the argument with the view's backing argument by
  identity.
\<close>

definition get_argument :: "ParserNode \<Rightarrow> string \<Rightarrow> bool \<Rightarrow> error + target option" where
  "get_argument st name0 view_ok =
     rbind (canonicalize name0) (\<lambda>nm.
     rbind (if view_ok
            then catch_NameError (get_argument_from_trie (unsafe_mode st) nm (arg_views st))
            else Inr None) (\<lambda>a.
     case a of
       None \<Rightarrow>
         rbind (get_argument_from_trie (unsafe_mode st) nm (args st)) (\<lambda>r.
         Inr (map_option Arg r))
     | Some v \<Rightarrow>
         rbind (catch_NameError (get_argument_from_trie (unsafe_mode st) nm (args st))) (\<lambda>a_normal.
         case a_normal of
           None \<Rightarrow> Inr (Some (View v))
         | Some r \<Rightarrow> if r \<noteq> view_arg v then Inl MultipleMatchError else Inr (Some (View v)))))"

text \<open>
  \<open>a.value = value\<close> on what \<open>get_argument\<close> returned: on \<open>None\<close> the assignment
  raises \<open>AttributeError\<close>; on a view \<open>__setattr__\<close> passes it to the backing argument.
\<close>

definition assign_value :: "ctor \<Rightarrow> ParserNode \<Rightarrow> target option \<Rightarrow> pyval \<Rightarrow> error + ParserNode" where
  "assign_value call st a v =
     (case a of
        None \<Rightarrow> Inl AttributeError
      | Some t \<Rightarrow>
          rbind (value_setter call (heap st ! backing t) v) (\<lambda>self'.
          Inr (st\<lparr>heap := (heap st)[backing t := self']\<rparr>)))"

text \<open>\<open>set_argument\<close>; the \<open>logging.warning\<close> call is not modelled.\<close>

definition set_argument :: "ctor \<Rightarrow> ParserNode \<Rightarrow> string \<Rightarrow> pyval \<Rightarrow> error + ParserNode" where
  "set_argument call st n v =
     rbind (get_argument st n True) (\<lambda>a. assign_value call st a v)"

text \<open>\<open>_update_arg\<close>: \<open>arg.update(un_arg)\<close>, then \<open>del self._cli_unparsed[un_arg.name]\<close>.\<close>

definition update_arg :: "ctor \<Rightarrow> ParserNode \<Rightarrow> target \<Rightarrow> UnparsedArgument \<Rightarrow> error + ParserNode" where
  "update_arg call st arg un_arg =
     rbind (update call (heap st ! backing arg) (fixed_value arg) un_arg) (\<lambda>self'.
     rbind (trie_del (un_name un_arg) (cli_unparsed st)) (\<lambda>b.
     Inr (st\<lparr>heap := (heap st)[backing arg := self'], cli_unparsed := b\<rparr>)))"

definition check_nargs :: "nargs \<Rightarrow> pyval \<Rightarrow> bool" where
  "check_nargs n v =
     (if n = NArgs 0 then v = VNone
      else if n = NArgs 1 then v \<noteq> VNone \<and> \<not> is_tuple v
      else if n = NPlus then (case v of VTuple xs \<Rightarrow> length xs > 0 | _ \<Rightarrow> True)
      else (case v of VTuple xs \<Rightarrow> NArgs (int (length xs)) = n | _ \<Rightarrow> False))"

definition parse_one_cli_arg ::
  "ctor \<Rightarrow> ParserNode \<Rightarrow> UnparsedArgument \<Rightarrow> error + (target option \<times> ParserNode)" where
  "parse_one_cli_arg call st un_arg =
     rbind (get_argument st (un_name un_arg) True) (\<lambda>a.
     case a of
       None \<Rightarrow> Inr (None, st)
     | Some t \<Rightarrow>
         if \<not> check_nargs (nargs (heap st ! backing t)) (un_value un_arg) then Inl NArgsError
         else rbind (update_arg call st t un_arg) (\<lambda>st'. Inr (Some t, st')))"

text \<open>
  \<open>_parse_one_arg\<close>. The spellings searched are the names of all views of the backing
  argument when the lookup gave a view, and the full and short name otherwise. In the loop
  \<open>double_check == arg\<close> compares backing arguments by identity; with \<open>None\<close> on the left
  the reflected \<open>Argument.__eq__\<close> calls \<open>None.is_view()\<close> and raises \<open>AttributeError\<close>.
\<close>

definition search_names :: "Argument \<Rightarrow> target \<Rightarrow> string list" where
  "search_names self arg =
     (case arg of
        View _ \<Rightarrow> map view_name (views self)
      | Arg _ \<Rightarrow>
          full_name self #
          (case short_name self of None \<Rightarrow> [] | Some s \<Rightarrow> if s \<noteq> [] then [s] else []))"

definition parse_one_arg ::
  "ctor \<Rightarrow> ParserNode \<Rightarrow> string \<Rightarrow> error + (target option \<times> ParserNode)" where
  "parse_one_arg call st n =
     rbind (get_argument st n True) (\<lambda>a.
     case a of
       None \<Rightarrow> Inr (None, st)
     | Some arg \<Rightarrow>
         (let prefixes = search_names (heap st ! backing arg) arg;
              items = concat (map (\<lambda>p. trie_iter_prefix_items p (cli_unparsed st)) prefixes)
          in if length items = 0 then Inr (None, st)
             else
               rbind (fold_res (\<lambda>item s.
                        rbind (get_argument s (un_name (snd item)) True) (\<lambda>double_check.
                        case double_check of
                          None \<Rightarrow> Inl AttributeError
                        | Some d \<Rightarrow>
                            if backing d \<noteq> backing arg then Inl AssertionError
                            else update_arg call s d (snd item))) items st) (\<lambda>st'.
               Inr (Some arg, st'))))"

text \<open>
  \<open>_parse_cfg_arg\<close>: a profile entry is assigned directly to an argument that is already
  declared, and buffered as a CONFIG token under its full spelling otherwise.
\<close>

definition parse_cfg_arg :: "ctor \<Rightarrow> ParserNode \<Rightarrow> string \<Rightarrow> pyval \<Rightarrow> error + ParserNode" where
  "parse_cfg_arg call st n v =
     rbind (get_argument st n True) (\<lambda>a.
     case a of
       Some t \<Rightarrow> assign_value call st (Some t) v
     | None \<Rightarrow>
         (let nm = ''--'' @ n in
          rbind (UnparsedArgument_init CONFIG (cfg_IDX st) nm v) (\<lambda>r.
          Inr (st\<lparr>cfg_IDX := snd r, cli_unparsed := trie_set nm (fst r) (cli_unparsed st)\<rparr>))))"

text \<open>
  \<open>Argument.view\<close> followed by the registration of the view in \<open>_arg_views\<close>:
  the fixed value goes through the argument's \<open>dtype\<close>.
\<close>

definition add_view :: "ctor \<Rightarrow> ParserNode \<Rightarrow> nat \<Rightarrow> string \<Rightarrow> pyval \<Rightarrow> error + ParserNode" where
  "add_view call st r nm v =
     (let self = heap st ! r in
      case dtype self of
        None \<Rightarrow> Inl TypeError
      | Some t \<Rightarrow>
          rbind (call t v) (\<lambda>v'.
          let vw = \<lparr>view_arg = r, view_name = nm, view_value = v'\<rparr> in
          Inr (st\<lparr>heap := (heap st)[r := self\<lparr>views := views self @ [vw]\<rparr>],
                  arg_views := trie_set nm vw (arg_views st)\<rparr>)))"

definition truthy_name :: "string option \<Rightarrow> bool" where
  "truthy_name sn = (case sn of None \<Rightarrow> False | Some s \<Rightarrow> s \<noteq> [])"

text \<open>\<open>_ParserNode.add_argument\<close>; it returns the reference of the new argument.\<close>

definition add_argument ::
  "ctor \<Rightarrow> ParserNode \<Rightarrow> string \<Rightarrow> string option \<Rightarrow> pyval \<Rightarrow> dtype option \<Rightarrow> nargs option \<Rightarrow> string
     \<Rightarrow> bool \<Rightarrow> error + (nat \<times> ParserNode)" where
  "add_argument call st fn sn dflt dt na hlp force =
     rbind (if parsed st \<and> \<not> unsafe_mode st then handle_error st ParsedError else Inr ()) (\<lambda>_.
     let uns = (parsed st \<and> unsafe_mode st) in
     rbind (if \<not> force then rbind (check_keywords (Some fn)) (\<lambda>_. check_keywords sn) else Inr ()) (\<lambda>_.
     rbind (Argument_init call fn sn dflt dt na uns hlp) (\<lambda>arg.
     rbind (if trie_contains fn (args st) then handle_error st DuplicateError else Inr ()) (\<lambda>_.
     rbind (if truthy_name sn \<and> trie_contains (the sn) (args st)
            then handle_error st DuplicateError else Inr ()) (\<lambda>_.
     let r = length (heap st);
         st1 = st\<lparr>heap := heap st @ [arg], args := trie_set fn r (args st)\<rparr>;
         st2 = (if truthy_name sn then st1\<lparr>args := trie_set (the sn) r (args st1)\<rparr> else st1)
     in
     rbind (if dt = Some TBool then
              rbind (add_view call st2 r fn (VBool True)) (\<lambda>s1.
              rbind (add_view call s1 r (''--no_'' @ drop 2 fn) (VBool False)) (\<lambda>s2.
              if truthy_name sn then
                rbind (add_view call s2 r (the sn) (VBool True)) (\<lambda>s3.
                add_view call s3 r (''-no_'' @ drop 1 (the sn)) (VBool False))
              else Inr s2))
            else Inr st2) (\<lambda>st3.
     rbind (if uns then rbind (parse_one_arg call st3 fn) (\<lambda>r'. Inr (snd r')) else Inr st3) (\<lambda>st4.
     Inr (r, st4))))))))"

text \<open>
  The tokenizer loop of \<open>parse_args\<close>: a name, then the elements up to the next one that
  starts with a hyphen as its value (none: \<open>None\<close>; one: the string; more: a tuple). Every
  token is stored under its spelling.
\<close>

definition token_value :: "string list \<Rightarrow> pyval" where
  "token_value vs = (case vs of [] \<Rightarrow> VNone | [v] \<Rightarrow> VStr v | _ \<Rightarrow> VTuple (map VStr vs))"

definition is_value :: "string \<Rightarrow> bool" where
  "is_value s = (\<not> prefix ''-'' s)"

function tokenize ::
  "string list \<Rightarrow> int \<Rightarrow> UnparsedArgument trie \<Rightarrow> error + (UnparsedArgument trie \<times> int)" where
  "tokenize [] counter buffer = Inr (buffer, counter)"
| "tokenize (nm # rest) counter buffer =
     (case UnparsedArgument_init CLI counter nm (token_value (takeWhile is_value rest)) of
        Inl e \<Rightarrow> Inl e
      | Inr r \<Rightarrow> tokenize (dropWhile is_value rest) (snd r) (trie_set nm (fst r) buffer))"
  by pat_completeness auto
termination
  by (relation "measure (\<lambda>(argv, counter, buffer). length argv)")
     (auto simp: length_dropWhile_le less_Suc_eq_le)

text \<open>
  \<open>get_log_dir\<close> builds a path from \<open>config\<close>, \<open>msg\<close> and the clock and creates the
  directory, sleeping and trying again while \<open>os.makedirs\<close> fails. The clock and the file
  system are the environment \<open>env\<close>: the path of the attempt that succeeds, or \<open>None\<close>
  when none does and the call never returns. Before the first attempt \<open>'-'.join(name)\<close>
  raises \<open>TypeError\<close> on a part that is not a string.
\<close>

fun is_str :: "pyval \<Rightarrow> bool" where
  "is_str (VStr _) = True"
| "is_str _ = False"

definition get_log_dir :: "string option \<Rightarrow> pyval \<Rightarrow> pyval \<Rightarrow> error + string" where
  "get_log_dir env config msg =
     (if (truthy config \<and> \<not> is_str config) \<or> (truthy msg \<and> \<not> is_str msg) then Inl TypeError
      else (case env of None \<Rightarrow> Inl NoReturn | Some p \<Rightarrow> Inr p))"

text \<open>\<open>try_get_value\<close>, local to \<open>parse_args\<close>.\<close>

definition try_get_value :: "ParserNode \<Rightarrow> string \<Rightarrow> error + pyval" where
  "try_get_value st n =
     (case get_argument st n True of
        Inl e \<Rightarrow> if e = AttributeError \<or> e = NameError then Inr VNone else Inl e
      | Inr None \<Rightarrow> Inr VNone
      | Inr (Some t) \<Rightarrow> Inr (cur_value (heap st ! backing t)))"

definition registry_get :: "(string \<times> (string \<times> pyval) list) list \<Rightarrow> pyval \<Rightarrow> error + (string \<times> pyval) list" where
  "registry_get reg config =
     (case config of
        VStr c \<Rightarrow> (case map_of reg c of None \<Rightarrow> Inl KeyError | Some d \<Rightarrow> Inr d)
      | _ \<Rightarrow> Inl KeyError)"

text \<open>The three passes of \<open>parse_args\<close> after tokenization and the help check.\<close>

definition unsafe_pass :: "ctor \<Rightarrow> ParserNode \<Rightarrow> error + ParserNode" where
  "unsafe_pass call st =
     rbind (parse_one_arg call st ''--unsafe'') (\<lambda>r1.
     rbind (parse_one_arg call (snd r1) ''-u'') (\<lambda>r2.
     Inr (if fst r1 \<noteq> None \<or> fst r2 \<noteq> None then (snd r2)\<lparr>unsafe_mode := True\<rparr> else snd r2)))"

definition config_pass :: "ctor \<Rightarrow> ParserNode \<Rightarrow> error + ParserNode" where
  "config_pass call st =
     (case registry st of
        None \<Rightarrow> Inr st
      | Some reg \<Rightarrow>
          rbind (parse_one_arg call st ''--config'') (\<lambda>r.
          case fst r of
            None \<Rightarrow> Inl AttributeError
          | Some a_cfg \<Rightarrow>
              rbind (registry_get reg (cur_value (heap (snd r) ! backing a_cfg))) (\<lambda>default_args.
              fold_res (\<lambda>nv s. parse_cfg_arg call s (fst nv) (snd nv)) default_args (snd r))))"

definition cli_pass :: "ctor \<Rightarrow> ParserNode \<Rightarrow> error + ParserNode" where
  "cli_pass call st =
     fold_res (\<lambda>un_arg s. rbind (parse_one_cli_arg call s un_arg) (\<lambda>r. Inr (snd r)))
       (trie_values (cli_unparsed st)) st"

definition log_dir_step :: "ctor \<Rightarrow> string option \<Rightarrow> ParserNode \<Rightarrow> error + ParserNode" where
  "log_dir_step call env st =
     rbind (add_argument call st ''--log_dir'' (Some ''-ld'') VNone (Some TStr) None [] True) (\<lambda>r.
     rbind (try_get_value (snd r) ''config'') (\<lambda>config.
     rbind (try_get_value (snd r) ''msg'') (\<lambda>msg.
     rbind (get_log_dir env config msg) (\<lambda>p.
     assign_value call (snd r) (Some (Arg (fst r))) (VStr p)))))"

text \<open>
  \<open>_ParserNode.parse_args\<close> on \<open>sys.argv[1:] = argv\<close>. \<open>help\<close> prints the declared
  arguments and leaves the process.
\<close>

definition parse_args :: "ctor \<Rightarrow> string option \<Rightarrow> ParserNode \<Rightarrow> string list \<Rightarrow> error + ParserNode" where
  "parse_args call env st argv =
     rbind (if parsed st then handle_error st ParsedError else Inr ()) (\<lambda>_.
     rbind (tokenize argv (cli_IDX st) []) (\<lambda>tk.
     if ''--help'' \<in> set argv \<or> ''-h'' \<in> set argv then Inl SystemExit
     else
       rbind (unsafe_pass call (st\<lparr>cli_unparsed := fst tk, cli_IDX := snd tk\<rparr>)) (\<lambda>st1.
       rbind (config_pass call st1) (\<lambda>st2.
       rbind (cli_pass call st2) (\<lambda>st3.
       rbind (log_dir_step call env st3) (\<lambda>st4.
       Inr (st4\<lparr>parsed := True\<rparr>)))))))"

text \<open>
  \<open>_ParserNode.__init__\<close> and \<open>add_cfg_registry\<close>. \<open>process_start\<close> is the state of a
  process that has created no node: safe mode, no test mode, both counters at 0.
\<close>

definition process_start :: ParserNode where
  "process_start =
     \<lparr>heap = [], args = [], arg_views = [], registry = None, parsed = False, cli_unparsed = [],
      unsafe_mode = False, TEST = False, cli_IDX = 0, cfg_IDX = 0\<rparr>"

definition ParserNode_init :: "ctor \<Rightarrow> ParserNode \<Rightarrow> error + ParserNode" where
  "ParserNode_init call g =
     rbind (add_argument call
              (g\<lparr>heap := [], args := [], arg_views := [], registry := None, parsed := False,
                 cli_unparsed := []\<rparr>)
              ''--unsafe'' (Some ''-u'') VNone (Some TBool) None [] True) (\<lambda>r1.
     rbind (add_argument call (snd r1) ''--msg'' (Some ''-m'') VNone (Some TStr) None [] True) (\<lambda>r2.
     Inr (snd r2)))"

definition add_cfg_registry ::
  "ctor \<Rightarrow> ParserNode \<Rightarrow> (string \<times> (string \<times> pyval) list) list \<Rightarrow> error + ParserNode" where
  "add_cfg_registry call st reg =
     rbind (add_argument call (st\<lparr>registry := Some reg\<rparr>) ''--config'' (Some ''-cfg'')
              (VStr []) (Some TStr) None [] True) (\<lambda>r.
     Inr (snd r))"

text \<open>
  The module functions \<open>add_argument\<close>, \<open>get_argument\<close> and \<open>parse_args\<close> on the
  default node: \<open>get_argument\<close> looks up without views and reads \<open>.value\<close>;
  \<open>parse_args\<close> returns the dictionary from each argument's name to its value, filled in
  the order of the sorted spellings.
\<close>

definition module_add_argument ::
  "ctor \<Rightarrow> ParserNode \<Rightarrow> string \<Rightarrow> string option \<Rightarrow> pyval \<Rightarrow> dtype option \<Rightarrow> nargs option
     \<Rightarrow> error + ParserNode" where
  "module_add_argument call st fn sn dflt dt na =
     rbind (add_argument call st fn sn dflt dt na [] False) (\<lambda>r. Inr (snd r))"

definition module_get_argument :: "ParserNode \<Rightarrow> string \<Rightarrow> error + pyval" where
  "module_get_argument st n =
     rbind (get_argument st n False) (\<lambda>a.
     case a of None \<Rightarrow> Inl AttributeError | Some t \<Rightarrow> Inr (cur_value (heap st ! backing t)))"

definition resolved :: "ParserNode \<Rightarrow> string \<Rightarrow> pyval option" where
  "resolved st = map_of (rev (map (\<lambda>kr. (name (heap st ! snd kr), cur_value (heap st ! snd kr))) (args st)))"

definition parsed_value ::
  "ctor \<Rightarrow> string option \<Rightarrow> ParserNode \<Rightarrow> string list \<Rightarrow> string \<Rightarrow> error + pyval option" where
  "parsed_value call env st argv n =
     rbind (parse_args call env st argv) (\<lambda>st'. Inr (resolved st' n))"

text \<open>
  The argument object that a name stands for once \<open>parse_args\<close> has returned (looked up
  without views), with its value and its last applied index.
\<close>

definition parsed_argument ::
  "ctor \<Rightarrow> string option \<Rightarrow> ParserNode \<Rightarrow> string list \<Rightarrow> string \<Rightarrow> error + Argument" where
  "parsed_argument call env st argv n =
     rbind (parse_args call env st argv) (\<lambda>st'.
     rbind (get_argument st' n False) (\<lambda>a.
     case a of None \<Rightarrow> Inl AttributeError | Some t \<Rightarrow> Inr (heap st' ! backing t)))"

section \<open>The tokens of a command line, in arrival order\<close>

text \<open>
  The tokens that the tokenizer loop builds from \<open>argv\<close>, listed in the order in which it
  builds them, and the last one among them that carries a given spelling.
\<close>

function tokens :: "string list \<Rightarrow> int \<Rightarrow> UnparsedArgument list" where
  "tokens [] counter = []"
| "tokens (nm # rest) counter =
     \<lparr>un_name = nm, un_value = token_value (takeWhile is_value rest), un_idx = Index CLI counter\<rparr>
     # tokens (dropWhile is_value rest) (counter + 1)"
  by pat_completeness auto
termination
  by (relation "measure (\<lambda>(argv, counter). length argv)")
     (auto simp: length_dropWhile_le less_Suc_eq_le)

definition last_token :: "string \<Rightarrow> UnparsedArgument list \<Rightarrow> UnparsedArgument option" where
  "last_token s toks = find (\<lambda>u. un_name u = s) (rev toks)"

section \<open>Example inputs\<close>

text \<open>
  \<open>Argument('--x', default=1, dtype=int)\<close> and \<open>Argument('--y', default=2)\<close>; an index
  with the spellings of parser_test.py; the default node after
  \<open>add_argument('--flag', dtype=bool, default=False)\<close> in a fresh process; the profile
  registry of parser_test.py, whose profile \<open>Test\<close> has the one attribute \<open>x = 1\<close>.
\<close>

definition example_x :: Argument where
  "example_x =
     \<lparr>full_name = ''--x'', short_name = None, default_value = VInt 1, dtype = Some TInt,
      help_text = [], nargs = NArgs 1, unsafe = False, name = ''x'', last_idx = None,
      cur_value = VInt 1, views = []\<rparr>"

definition example_y :: Argument where
  "example_y =
     \<lparr>full_name = ''--y'', short_name = None, default_value = VInt 2, dtype = Some TInt,
      help_text = [], nargs = NArgs 1, unsafe = False, name = ''y'', last_idx = None,
      cur_value = VInt 2, views = []\<rparr>"

definition example_index :: "nat trie" where
  "example_index =
     [(''--long_option4'', 3), (''--option'', 0), (''--option1'', 1), (''-lo4'', 3), (''-o1'', 1)]"

definition example_node :: ParserNode where
  "example_node =
     \<lparr>heap =
        [\<lparr>full_name = ''--unsafe'', short_name = Some ''-u'', default_value = VNone,
           dtype = Some TBool, help_text = [], nargs = NArgs 0, unsafe = False,
           name = ''unsafe'', last_idx = None, cur_value = VNone,
           views =
             [\<lparr>view_arg = 0, view_name = ''--unsafe'', view_value = VBool True\<rparr>,
              \<lparr>view_arg = 0, view_name = ''--no_unsafe'', view_value = VBool False\<rparr>,
              \<lparr>view_arg = 0, view_name = ''-u'', view_value = VBool True\<rparr>,
              \<lparr>view_arg = 0, view_name = ''-no_u'', view_value = VBool False\<rparr>]\<rparr>,
         \<lparr>full_name = ''--msg'', short_name = Some ''-m'', default_value = VNone,
           dtype = Some TStr, help_text = [], nargs = NArgs 1, unsafe = False,
           name = ''msg'', last_idx = None, cur_value = VNone, views = []\<rparr>,
         \<lparr>full_name = ''--flag'', short_name = None, default_value = VBool False,
           dtype = Some TBool, help_text = [], nargs = NArgs 0, unsafe = False,
           name = ''flag'', last_idx = None, cur_value = VBool False,
           views =
             [\<lparr>view_arg = 2, view_name = ''--flag'', view_value = VBool True\<rparr>,
              \<lparr>view_arg = 2, view_name = ''--no_flag'', view_value = VBool False\<rparr>]\<rparr>],
      args = [(''--flag'', 2), (''--msg'', 1), (''--unsafe'', 0), (''-m'', 1), (''-u'', 0)],
      arg_views =
        [(''--flag'', \<lparr>view_arg = 2, view_name = ''--flag'', view_value = VBool True\<rparr>),
         (''--no_flag'', \<lparr>view_arg = 2, view_name = ''--no_flag'', view_value = VBool False\<rparr>),
         (''--no_unsafe'', \<lparr>view_arg = 0, view_name = ''--no_unsafe'', view_value = VBool False\<rparr>),
         (''--unsafe'', \<lparr>view_arg = 0, view_name = ''--unsafe'', view_value = VBool True\<rparr>),
         (''-no_u'', \<lparr>view_arg = 0, view_name = ''-no_u'', view_value = VBool False\<rparr>),
         (''-u'', \<lparr>view_arg = 0, view_name = ''-u'', view_value = VBool True\<rparr>)],
      registry = None, parsed = False, cli_unparsed = [], unsafe_mode = False, TEST = False,
      cli_IDX = 0, cfg_IDX = 0\<rparr>"

definition profiles :: "(string \<times> (string \<times> pyval) list) list" where
  "profiles = [(''Test'', [(''x'', VInt 1)])]"

lemma example_x_declared:
  "Argument_init py_call ''--x'' None (VInt 1) (Some TInt) None False [] = Inr example_x"
  by code_simp

lemma example_y_declared:
  "Argument_init py_call ''--y'' None (VInt 2) None None False [] = Inr example_y"
  by code_simp

lemma example_node_declared:
  "rbind (ParserNode_init py_call process_start) (\<lambda>s0.
     module_add_argument py_call s0 ''--flag'' None (VBool False) (Some TBool) None)
   = Inr example_node"
  by code_simp

section \<open>Facts about the name index and the value setter\<close>

lemma length_values_prefix:
  assumes "distinct (map fst t)"
  shows "length (trie_values_prefix n t) = card (matches n t)"
proof -
  let ?ks = "map fst (filter (\<lambda>kv. prefix n (fst kv)) t)"
  have d: "distinct ?ks" using assms by (rule distinct_map_filter)
  have e: "matches n t = set ?ks"
    by (auto simp: matches_def spellings_def)
  have "card (matches n t) = length ?ks"
    unfolding e using d by (rule distinct_card)
  then show ?thesis by (simp add: trie_values_prefix_def)
qed

lemma values_prefix_single:
  assumes "distinct (map fst t)" and "matches n t = {k}" and "(k, a) \<in> set t"
  shows "trie_values_prefix n t = [a]"
proof -
  have len: "length (trie_values_prefix n t) = 1"
    using assms(1,2) by (simp add: length_values_prefix)
  have "prefix n k" using assms(2) by (auto simp: matches_def)
  then have "a \<in> set (trie_values_prefix n t)"
    using assms(3) by (force simp: trie_values_prefix_def)
  with len show ?thesis
    by (cases "trie_values_prefix n t") auto
qed

lemma map_of_absent: "n \<notin> spellings t \<Longrightarrow> map_of t n = None"
  by (simp add: spellings_def map_of_eq_None_iff)

lemma map_of_trie_set: "map_of (trie_set k v t) = (map_of t)(k \<mapsto> v)"
  by (induction t) (auto simp: fun_eq_iff)

lemma keys_trie_set: "fst ` set (trie_set k v t) = insert k (fst ` set t)"
proof (induction t)
  case Nil
  show ?case by simp
next
  case (Cons kv t)
  obtain k' v' where kv: "kv = (k', v')" by (cases kv)
  show ?case by (simp add: kv Cons.IH insert_commute)
qed

lemma sorted_trie_set:
  "sorted_wrt (<) (map fst t) \<Longrightarrow> sorted_wrt (<) (map fst (trie_set k v t))"
proof (induction t)
  case Nil
  then show ?case by simp
next
  case (Cons kv t)
  obtain k' v' where kv: "kv = (k', v')" by (cases kv)
  from Cons.prems have rest: "sorted_wrt (<) (map fst t)" and above: "\<forall>x \<in> fst ` set t. k' < x"
    by (auto simp: kv)
  show ?case
  proof (cases "k = k'")
    case True
    with Cons.prems show ?thesis by (simp add: kv)
  next
    case False
    show ?thesis
    proof (cases "k < k'")
      case True
      with Cons.prems False show ?thesis by (auto simp: kv)
    next
      case ge: False
      with False have "k' < k" by simp
      with above have "\<forall>x \<in> fst ` set (trie_set k v t). k' < x"
        unfolding keys_trie_set by simp
      with False ge Cons.IH [OF rest] show ?thesis by (simp add: kv)
    qed
  qed
qed

lemma find_app:
  "find P (xs @ ys) = (case find P xs of None \<Rightarrow> find P ys | Some x \<Rightarrow> Some x)"
  by (induction xs) auto

lemma last_token_Cons:
  "last_token s (u # toks) =
     (case last_token s toks of Some w \<Rightarrow> Some w | None \<Rightarrow> if un_name u = s then Some u else None)"
  by (simp add: last_token_def find_app split: option.splits)

lemma tokenize_buffer:
  "tokenize argv c b0 = Inr (b, c') \<Longrightarrow>
     (sorted_wrt (<) (map fst b0) \<longrightarrow> sorted_wrt (<) (map fst b))
     \<and> map_of b s = (case last_token s (tokens argv c) of Some u \<Rightarrow> Some u | None \<Rightarrow> map_of b0 s)"
proof (induction argv c b0 rule: tokenize.induct)
  case (1 counter buffer)
  then show ?case by (simp add: last_token_def)
next
  case (2 nm rest counter buffer)
  let ?v = "token_value (takeWhile is_value rest)"
  from "2.prems" obtain r where
    r: "UnparsedArgument_init CLI counter nm ?v = Inr r"
    and rec: "tokenize (dropWhile is_value rest) (snd r) (trie_set nm (fst r) buffer) = Inr (b, c')"
    by (auto split: sum.splits)
  from r have fr: "fst r = \<lparr>un_name = nm, un_value = ?v, un_idx = Index CLI counter\<rparr>"
    and sr: "snd r = counter + 1"
    by (auto simp: UnparsedArgument_init_def rbind_def split: sum.splits if_splits)
  note IH = "2.IH" [OF r rec]
  show ?case
    using IH
    by (auto simp: sr fr last_token_Cons map_of_trie_set sorted_trie_set split: option.splits)
qed

lemma value_setter_last_idx:
  "value_setter call (a\<lparr>last_idx := li\<rparr>) v =
     (case value_setter call a v of Inl e \<Rightarrow> Inl e | Inr a' \<Rightarrow> Inr (a'\<lparr>last_idx := li\<rparr>))"
  by (simp add: value_setter_def rbind_def split: sum.splits)

lemma value_setter_keeps_last_idx:
  "value_setter call a v = Inr a' \<Longrightarrow> last_idx a' = last_idx a"
  by (auto simp: value_setter_def rbind_def split: sum.splits)

lemma Argument_init_nargs:
  assumes "Argument_init call fn sn d dt na u h = Inr a"
  shows "nargs a = (if dt = Some TBool then NArgs 0
                    else case na of None \<Rightarrow> NArgs 1 | Some n \<Rightarrow> if n = NArgs 0 then NArgs 1 else n)"
  using assms
  by (auto simp: Argument_init_def rbind_def value_setter_def Let_def
           split: sum.splits if_splits option.splits)

section \<open>Source precedence\<close>

text \<open>
  C1. The claim: when a name receives a profile value and a command-line value, the
  command-line value is the resolved one, also for an argument declared ad hoc under unsafe
  mode after \<open>parse_args\<close>. The run below is that case: profile \<open>Test\<close> with \<open>x = 1\<close>, the
  command line \<open>-cfg Test -u --x 2\<close>, and \<open>add_argument('--x', default=0, dtype=int)\<close>
  after \<open>parse_args\<close>. The configuration pass stores its token under the spelling
  \<open>--x\<close>, where the command-line token was, and the declaration then reads the profile
  value: the resolved value is 1, not 2.
\<close>

theorem adhoc_declaration_keeps_config_value:
  "rbind (ParserNode_init py_call process_start) (\<lambda>s0.
   rbind (add_cfg_registry py_call s0 profiles) (\<lambda>s1.
   rbind (parse_args py_call (Some p) s1 [''-cfg'', ''Test'', ''-u'', ''--x'', ''2'']) (\<lambda>s2.
   rbind (module_add_argument py_call s2 ''--x'' None (VInt 0) (Some TInt) None) (\<lambda>s3.
   module_get_argument s3 ''x''))))
   = Inr (VInt 1)"
  by code_simp

text \<open>
  The same profile and command line with the argument declared before \<open>parse_args\<close>
  (\<open>test_cfg_cli\<close> of parser_test.py): the command-line value is the resolved one.
\<close>

lemma declared_argument_takes_cli_value:
  "rbind (ParserNode_init py_call process_start) (\<lambda>s0.
   rbind (add_cfg_registry py_call s0 profiles) (\<lambda>s1.
   rbind (module_add_argument py_call s1 ''--x'' None (VInt 0) (Some TInt) None) (\<lambda>s2.
   rbind (parse_args py_call (Some p) s2 [''-cfg'', ''Test'', ''-u'', ''--x'', ''2'']) (\<lambda>s3.
   module_get_argument s3 ''x''))))
   = Inr (VInt 2)"
  by code_simp

text \<open>
  When the command line uses the short spelling, both tokens stay buffered and the ad hoc
  declaration applies the profile token and then the command-line token: their indices are
  compared across sources and the declaration raises \<open>TypeError\<close>.
\<close>

lemma adhoc_declaration_short_spelling:
  "rbind (ParserNode_init py_call process_start) (\<lambda>s0.
   rbind (add_cfg_registry py_call s0 profiles) (\<lambda>s1.
   rbind (parse_args py_call (Some p) s1 [''-cfg'', ''Test'', ''-u'', ''-x'', ''2'']) (\<lambda>s2.
   rbind (module_add_argument py_call s2 ''--x'' (Some ''-x'') (VInt 0) (Some TInt) None) (\<lambda>s3.
   module_get_argument s3 ''x''))))
   = Inl TypeError"
  by code_simp

section \<open>Sequence indices\<close>

text \<open>
  C2. The claim: an index built from a CONFIG token compares strictly less than an index
  built from a CLI token, whatever the counters. In the code the comparison of two indices
  of different sources is not defined: it raises \<open>TypeError\<close>, in both directions and for
  all counters.
\<close>

theorem Index_lt_across_sources:
  "Index_lt (Index CONFIG i) (Index CLI j) = Inl TypeError
   \<and> Index_lt (Index CLI j) (Index CONFIG i) = Inl TypeError"
  by (simp add: Index_lt_def)

section \<open>Last write wins\<close>

text \<open>
  C3, amended. For an argument \<open>a\<close> and a token \<open>t\<close> whose index can be compared with the
  last applied one (\<open>a\<close> has none, or both come from the same source): when \<open>a\<close> has no
  last applied index or the counter of \<open>t\<close> is strictly greater, \<open>update\<close> assigns the
  value of \<open>t\<close> (through a view: the view's fixed value) through the value setter and,
  when the setter accepts it, records the index of \<open>t\<close>; when the setter raises, so does
  \<open>update\<close>; otherwise the argument is returned unchanged.
\<close>

theorem update_last_write_wins:
  assumes "last_idx a = None \<or> (\<exists>l. last_idx a = Some l \<and> source l = source (un_idx t))"
  shows "update call a fixed t =
     (if last_idx a = None \<or> (\<exists>l. last_idx a = Some l \<and> idx l < idx (un_idx t))
      then (case value_setter call a (case fixed of Some v \<Rightarrow> v | None \<Rightarrow> un_value t) of
              Inl e \<Rightarrow> Inl e
            | Inr a' \<Rightarrow> Inr (a'\<lparr>last_idx := Some (un_idx t)\<rparr>))
      else Inr a)"
  using assms
  by (auto simp: update_def rbind_def Index_lt_def split: option.splits sum.splits)

theorem update_last_write_wins_witness:
  "update py_call example_x None \<lparr>un_name = ''--x'', un_value = VStr ''5'', un_idx = Index CLI 1\<rparr>
     = Inr (example_x\<lparr>cur_value := VInt 5, last_idx := Some (Index CLI 1)\<rparr>)
   \<and> update py_call (example_x\<lparr>last_idx := Some (Index CLI 0)\<rparr>) (Some (VInt 7))
        \<lparr>un_name = ''--x'', un_value = VNone, un_idx = Index CLI 1\<rparr>
     = Inr (example_x\<lparr>cur_value := VInt 7, last_idx := Some (Index CLI 1)\<rparr>)
   \<and> update py_call (example_x\<lparr>last_idx := Some (Index CLI 1)\<rparr>) None
        \<lparr>un_name = ''--x'', un_value = VStr ''5'', un_idx = Index CLI 1\<rparr>
     = Inr (example_x\<lparr>last_idx := Some (Index CLI 1)\<rparr>)"
proof -
  have h1: "last_idx example_x = None" by (simp add: example_x_def)
  have s5: "value_setter py_call example_x (VStr ''5'') = Inr (example_x\<lparr>cur_value := VInt 5\<rparr>)"
    by code_simp
  have s7: "value_setter py_call (example_x\<lparr>last_idx := Some (Index CLI 0)\<rparr>) (VInt 7)
              = Inr (example_x\<lparr>cur_value := VInt 7, last_idx := Some (Index CLI 0)\<rparr>)"
    by code_simp
  show ?thesis
    using update_last_write_wins
            [of example_x "\<lparr>un_name = ''--x'', un_value = VStr ''5'', un_idx = Index CLI 1\<rparr>"
                py_call None]
          update_last_write_wins
            [of "example_x\<lparr>last_idx := Some (Index CLI 0)\<rparr>"
                "\<lparr>un_name = ''--x'', un_value = VNone, un_idx = Index CLI 1\<rparr>"
                py_call "Some (VInt 7)"]
          update_last_write_wins
            [of "example_x\<lparr>last_idx := Some (Index CLI 1)\<rparr>"
                "\<lparr>un_name = ''--x'', un_value = VStr ''5'', un_idx = Index CLI 1\<rparr>"
                py_call None]
    by (simp add: h1 s5 s7)
qed

text \<open>
  The claim as stated fails where the setter rejects the value: an argument of arity 1
  with no last applied index and a token that carries two values (the retroactive path of
  \<open>_parse_one_arg\<close> hands it over unchecked). Nothing is written and \<open>FormatError\<close> is
  raised.
\<close>

theorem update_rejected_value_counterexample:
  "last_idx example_x = None
   \<and> update py_call example_x None
        \<lparr>un_name = ''--x'', un_value = VTuple [VStr ''1'', VStr ''2''], un_idx = Index CLI 0\<rparr>
     = Inl FormatError"
  by code_simp

section \<open>Resolution by arrival order\<close>

text \<open>
  C4. The boolean argument \<open>--flag\<close> with default \<open>False\<close> and the command line
  \<open>--flag --no_flag\<close>: \<open>parse_args\<close> returns, for every path that \<open>get_log_dir\<close>
  creates, and in the dictionary it returns \<open>flag\<close> is \<open>False\<close>. That value is the
  one written by the token that arrived last: both tokens are taken from the buffer, the
  last applied index of \<open>flag\<close> is that of the second token, and its value is the fixed
  value \<open>False\<close> of the view \<open>--no_flag\<close>. The command line \<open>--flag\<close> alone gives
  \<open>True\<close>. For \<open>--no_flag --flag\<close> the buffer is walked in the same order of
  spellings, \<open>--flag\<close> before \<open>--no_flag\<close>, which is then not the order of arrival;
  the token that arrived last, \<open>--flag\<close>, still decides: \<open>True\<close>, under the index
  of the second token.
\<close>

theorem flag_then_no_flag:
  "parsed_value py_call (Some p) example_node [''--flag'', ''--no_flag''] ''flag''
     = Inr (Some (VBool False))
   \<and> parsed_argument py_call (Some p) example_node [''--flag'', ''--no_flag''] ''flag''
     = Inr ((heap example_node ! 2)\<lparr>cur_value := VBool False, last_idx := Some (Index CLI 1)\<rparr>)
   \<and> map_sum id cli_unparsed (parse_args py_call (Some p) example_node [''--flag'', ''--no_flag''])
     = Inr []
   \<and> parsed_argument py_call (Some p) example_node [''--flag''] ''flag''
     = Inr ((heap example_node ! 2)\<lparr>cur_value := VBool True, last_idx := Some (Index CLI 0)\<rparr>)
   \<and> tokenize [''--no_flag'', ''--flag''] (cli_IDX example_node) []
     = Inr ([(''--flag'', \<lparr>un_name = ''--flag'', un_value = VNone, un_idx = Index CLI 1\<rparr>),
             (''--no_flag'', \<lparr>un_name = ''--no_flag'', un_value = VNone, un_idx = Index CLI 0\<rparr>)],
            2)
   \<and> parsed_value py_call (Some p) example_node [''--no_flag'', ''--flag''] ''flag''
     = Inr (Some (VBool True))
   \<and> parsed_argument py_call (Some p) example_node [''--no_flag'', ''--flag''] ''flag''
     = Inr ((heap example_node ! 2)\<lparr>cur_value := VBool True, last_idx := Some (Index CLI 1)\<rparr>)"
  by code_simp

section \<open>Lookup in a name index\<close>

text \<open>
  C5. In an index (its spellings are distinct), a query that is a registered spelling gives
  that spelling's target, whatever other spellings it is a prefix of. For a query that is
  not registered: two or more spellings that start with it raise \<open>MultipleMatchError\<close>;
  none raises \<open>NameError\<close>, or gives \<open>None\<close> in unsafe mode; exactly one gives the
  target of that spelling.
\<close>

theorem get_argument_from_trie_cases:
  assumes "distinct (map fst t)"
  shows "(\<forall>a. (n, a) \<in> set t \<longrightarrow> get_argument_from_trie u n t = Inr (Some a))
       \<and> (n \<notin> spellings t \<and> 2 \<le> card (matches n t) \<longrightarrow>
            get_argument_from_trie u n t = Inl MultipleMatchError)
       \<and> (n \<notin> spellings t \<and> matches n t = {} \<longrightarrow>
            get_argument_from_trie u n t = (if u then Inr None else Inl NameError))
       \<and> (\<forall>k a. n \<notin> spellings t \<and> matches n t = {k} \<and> (k, a) \<in> set t \<longrightarrow>
            get_argument_from_trie u n t = Inr (Some a))"
proof (intro conjI allI impI)
  fix a assume "(n, a) \<in> set t"
  then have "map_of t n = Some a" using assms by simp
  then show "get_argument_from_trie u n t = Inr (Some a)"
    by (simp add: get_argument_from_trie_def)
next
  assume h: "n \<notin> spellings t \<and> 2 \<le> card (matches n t)"
  then have "length (trie_values_prefix n t) > 1"
    using assms by (simp add: length_values_prefix)
  with h show "get_argument_from_trie u n t = Inl MultipleMatchError"
    by (simp add: get_argument_from_trie_def map_of_absent)
next
  assume h: "n \<notin> spellings t \<and> matches n t = {}"
  then have "length (trie_values_prefix n t) = 0"
    using assms by (simp add: length_values_prefix)
  with h show "get_argument_from_trie u n t = (if u then Inr None else Inl NameError)"
    by (simp add: get_argument_from_trie_def map_of_absent)
next
  fix k a assume h: "n \<notin> spellings t \<and> matches n t = {k} \<and> (k, a) \<in> set t"
  then have "trie_values_prefix n t = [a]"
    using assms by (simp add: values_prefix_single)
  with h show "get_argument_from_trie u n t = Inr (Some a)"
    by (simp add: get_argument_from_trie_def map_of_absent)
qed

theorem get_argument_from_trie_cases_witness:
  "distinct (map fst example_index)
   \<and> (''--option'', 0) \<in> set example_index
   \<and> get_argument_from_trie False ''--option'' example_index = Inr (Some 0)
   \<and> ''-'' \<notin> spellings example_index \<and> 2 \<le> card (matches ''-'' example_index)
   \<and> get_argument_from_trie False ''-'' example_index = Inl MultipleMatchError
   \<and> ''--z'' \<notin> spellings example_index \<and> matches ''--z'' example_index = {}
   \<and> get_argument_from_trie False ''--z'' example_index = Inl NameError
   \<and> get_argument_from_trie True ''--z'' example_index = Inr None
   \<and> ''--l'' \<notin> spellings example_index \<and> matches ''--l'' example_index = {''--long_option4''}
   \<and> (''--long_option4'', 3) \<in> set example_index
   \<and> get_argument_from_trie False ''--l'' example_index = Inr (Some 3)"
proof -
  have d: "distinct (map fst example_index)" by (simp add: example_index_def)
  have m1: "(''--option'', 0) \<in> set example_index" by (simp add: example_index_def)
  have m2: "''-'' \<notin> spellings example_index \<and> 2 \<le> card (matches ''-'' example_index)"
  proof -
    have "matches ''-'' example_index = spellings example_index"
      by (auto simp: matches_def spellings_def example_index_def)
    moreover have "card (spellings example_index) = 5"
      by (simp add: spellings_def example_index_def)
    ultimately show ?thesis by (simp add: spellings_def example_index_def)
  qed
  have m3: "''--z'' \<notin> spellings example_index \<and> matches ''--z'' example_index = {}"
    by (auto simp: matches_def spellings_def example_index_def)
  have m4: "''--l'' \<notin> spellings example_index \<and> matches ''--l'' example_index = {''--long_option4''}"
    by (auto simp: matches_def spellings_def example_index_def)
  have m5: "(''--long_option4'', 3) \<in> set example_index" by (simp add: example_index_def)
  note th = get_argument_from_trie_cases [OF d]
  show ?thesis
    using d m1 m2 m3 m4 m5 th [of "''--option''" False] th [of "''-''" False]
      th [of "''--z''" False] th [of "''--z''" True] th [of "''--l''" False]
    by simp
qed

section \<open>Assignment to an argument of arity 1\<close>

text \<open>
  C6, amended. For an argument of arity 1: assigning a value that is neither a tuple nor
  \<open>None\<close> stores that value coerced through the declared type constructor (the value
  itself when no type is declared; the constructor's exception when it raises), and a read
  returns what was stored; assigning a tuple raises \<open>FormatError\<close>.
\<close>

theorem value_setter_nargs_one:
  assumes "nargs a = NArgs 1"
  shows "(\<forall>v. \<not> is_tuple v \<and> v \<noteq> VNone \<longrightarrow>
            value_setter call a v =
              (case dtype a of
                 None \<Rightarrow> Inr (a\<lparr>cur_value := v\<rparr>)
               | Some t \<Rightarrow> (case call t v of Inl e \<Rightarrow> Inl e | Inr w \<Rightarrow> Inr (a\<lparr>cur_value := w\<rparr>))))
         \<and> (\<forall>xs. value_setter call a (VTuple xs) = Inl FormatError)"
proof (intro conjI allI impI)
  fix v assume v: "\<not> is_tuple v \<and> v \<noteq> VNone"
  then have ar: "check_arity (nargs a) v = Inr v"
    using assms by (simp add: check_arity_def)
  show "value_setter call a v =
              (case dtype a of
                 None \<Rightarrow> Inr (a\<lparr>cur_value := v\<rparr>)
               | Some t \<Rightarrow> (case call t v of Inl e \<Rightarrow> Inl e | Inr w \<Rightarrow> Inr (a\<lparr>cur_value := w\<rparr>)))"
    using v ar
    by (cases v) (simp_all add: value_setter_def rbind_def coerce_def split: option.splits)
next
  fix xs
  show "value_setter call a (VTuple xs) = Inl FormatError"
    using assms by (simp add: value_setter_def check_arity_def rbind_def)
qed

theorem value_setter_nargs_one_witness:
  "nargs example_x = NArgs 1
   \<and> value_setter py_call example_x (VStr ''23'') = Inr (example_x\<lparr>cur_value := VInt 23\<rparr>)
   \<and> cur_value (example_x\<lparr>cur_value := VInt 23\<rparr>) = VInt 23
   \<and> value_setter py_call example_x (VTuple [VStr ''2'', VStr ''3'']) = Inl FormatError"
proof -
  have h: "nargs example_x = NArgs 1" by (simp add: example_x_def)
  have c: "py_call TInt (VStr ''23'') = Inr (VInt 23)" by code_simp
  have d: "dtype example_x = Some TInt" by (simp add: example_x_def)
  show ?thesis
    using value_setter_nargs_one [OF h, of py_call] h c d by simp
qed

text \<open>The claim names \<open>NArgsError\<close> for the tuple; the setter raises \<open>FormatError\<close>.\<close>

theorem value_setter_tuple_counterexample:
  "nargs example_x = NArgs 1
   \<and> value_setter py_call example_x (VTuple [VStr ''2'', VStr ''3'']) = Inl FormatError
   \<and> value_setter py_call example_x (VTuple [VStr ''2'', VStr ''3'']) \<noteq> Inl NArgsError"
  by code_simp

section \<open>After parse_args\<close>

text \<open>
  C7, amended. When \<open>parse_args\<close> has completed on a node, the node is marked parsed;
  on a node that is marked parsed, while test mode is off, every \<open>add_argument\<close> raises
  \<open>ParsedError\<close> unless unsafe mode is active, and every \<open>parse_args\<close> raises
  \<open>ParsedError\<close>.
\<close>

theorem parsed_rejects_declarations:
  assumes "parse_args call env st argv = Inr st'"
  shows "parsed st'
       \<and> (\<forall>s fn sn dflt dt na hlp force.
             parsed s \<and> \<not> unsafe_mode s \<and> \<not> TEST s \<longrightarrow>
             add_argument call s fn sn dflt dt na hlp force = Inl ParsedError)
       \<and> (\<forall>s env' argv'.
             parsed s \<and> \<not> TEST s \<longrightarrow> parse_args call env' s argv' = Inl ParsedError)"
proof -
  from assms have "parsed st'"
    by (auto simp: parse_args_def rbind_def split: sum.splits if_splits)
  then show ?thesis
    by (simp add: add_argument_def parse_args_def handle_error_def rbind_def)
qed

theorem parsed_rejects_declarations_witness:
  "\<exists>st'. parse_args py_call (Some ''log'') example_node [] = Inr st'
     \<and> parsed st' \<and> \<not> unsafe_mode st' \<and> \<not> TEST st'
     \<and> add_argument py_call st' ''--x'' None VNone None None [] False = Inl ParsedError
     \<and> parse_args py_call (Some ''log'') st' [''--flag''] = Inl ParsedError"
proof -
  let ?st = "projr (parse_args py_call (Some ''log'') example_node [])"
  have e: "parse_args py_call (Some ''log'') example_node [] = Inr ?st"
    by code_simp
  have f: "\<not> unsafe_mode ?st \<and> \<not> TEST ?st"
    by code_simp
  from parsed_rejects_declarations [OF e] f
  have "parsed ?st
     \<and> add_argument py_call ?st ''--x'' None VNone None None [] False = Inl ParsedError
     \<and> parse_args py_call (Some ''log'') ?st [''--flag''] = Inl ParsedError"
    by simp
  with e f show ?thesis by blast
qed

text \<open>
  In test mode \<open>handle_error\<close> drops the error: after a completed \<open>parse_args\<close>, with
  unsafe mode off, \<open>add_argument('--x', default=1)\<close> declares the argument.
\<close>

theorem test_mode_counterexample:
  "rbind (ParserNode_init py_call (process_start\<lparr>TEST := True\<rparr>)) (\<lambda>s0.
   rbind (parse_args py_call (Some ''log'') s0 []) (\<lambda>s1.
   rbind (module_add_argument py_call s1 ''--x'' None (VInt 1) None None) (\<lambda>s2.
   Inr (parsed s1, unsafe_mode s1, module_get_argument s2 ''x''))))
   = Inr (True, False, Inr (VInt 1))"
  by code_simp

section \<open>set_argument\<close>

text \<open>
  What \<open>set_argument(n, v)\<close> does when it returns: it resolves \<open>n\<close> as
  \<open>get_argument\<close> does with views allowed and assigns \<open>v\<close> through the value setter to
  the argument found, or to the backing argument of the view found; the last applied index
  is neither read nor changed, and nothing else in the node changes.
\<close>

lemma set_argument_overwrites:
  assumes "set_argument call st n v = Inr st'"
  shows "\<exists>t a'. get_argument st n True = Inr (Some t)
           \<and> value_setter call (heap st ! backing t) v = Inr a'
           \<and> st' = st\<lparr>heap := (heap st)[backing t := a']\<rparr>
           \<and> last_idx a' = last_idx (heap st ! backing t)
           \<and> (\<forall>li. value_setter call ((heap st ! backing t)\<lparr>last_idx := li\<rparr>) v
                    = Inr (a'\<lparr>last_idx := li\<rparr>))"
proof -
  from assms obtain t a' where
    g: "get_argument st n True = Inr (Some t)"
    and w: "value_setter call (heap st ! backing t) v = Inr a'"
    and s: "st' = st\<lparr>heap := (heap st)[backing t := a']\<rparr>"
    by (auto simp: set_argument_def assign_value_def rbind_def split: sum.splits option.splits)
  from w have "last_idx a' = last_idx (heap st ! backing t)"
    by (rule value_setter_keeps_last_idx)
  moreover from w have "\<forall>li. value_setter call ((heap st ! backing t)\<lparr>last_idx := li\<rparr>) v
                    = Inr (a'\<lparr>last_idx := li\<rparr>)"
    by (simp add: value_setter_last_idx)
  ultimately show ?thesis using g w s by blast
qed

lemma set_argument_overwrites_example:
  "set_argument py_call example_node ''flag'' (VBool True)
     = Inr (example_node\<lparr>heap := (heap example_node)
              [2 := (heap example_node ! 2)\<lparr>cur_value := VBool True\<rparr>]\<rparr>)
   \<and> (\<exists>t a'. get_argument example_node ''flag'' True = Inr (Some t)
         \<and> value_setter py_call (heap example_node ! backing t) (VBool True) = Inr a'
         \<and> last_idx a' = last_idx (heap example_node ! backing t))"
proof -
  have h: "set_argument py_call example_node ''flag'' (VBool True)
     = Inr (example_node\<lparr>heap := (heap example_node)
              [2 := (heap example_node ! 2)\<lparr>cur_value := VBool True\<rparr>]\<rparr>)"
    by code_simp
  from set_argument_overwrites [OF h] have
    "\<exists>t a'. get_argument example_node ''flag'' True = Inr (Some t)
         \<and> value_setter py_call (heap example_node ! backing t) (VBool True) = Inr a'
         \<and> last_idx a' = last_idx (heap example_node ! backing t)"
    by blast
  with h show ?thesis by simp
qed

text \<open>
  C8. The claim: \<open>set_argument\<close> resolves the name through the index of arguments only,
  a name that resolves to a view is no target, and the value is overwritten without
  sequencing. On the node with the boolean argument \<open>--flag\<close> (default \<open>False\<close>) the
  name \<open>no_flag\<close> is not found through the index of arguments (\<open>NameError\<close>, as in the
  module's \<open>get_argument\<close>), yet \<open>set_argument('no_flag', True)\<close> returns: it resolves
  the negative view and sets \<open>flag\<close> to \<open>True\<close>.
\<close>

theorem set_argument_writes_through_view:
  "get_argument example_node ''no_flag'' False = Inl NameError
   \<and> module_get_argument example_node ''flag'' = Inr (VBool False)
   \<and> rbind (set_argument py_call example_node ''no_flag'' (VBool True))
        (\<lambda>s. module_get_argument s ''flag'') = Inr (VBool True)"
  by code_simp

section \<open>The type of the default\<close>

text \<open>
  C9. An argument constructed with a default other than \<open>None\<close> and no declared type has
  the type of the default as its \<open>dtype\<close>. An assignment keeps the \<open>dtype\<close>, and on
  every argument that has this \<open>dtype\<close> an assignment of a value other than \<open>None\<close>
  passes the arity check and then sends the value, or each element of a tuple, through that
  type's constructor; \<open>None\<close> has no element and is stored as it is.
\<close>

theorem Argument_init_infers_dtype:
  assumes "Argument_init call fn sn d None na u h = Inr a" and "d \<noteq> VNone"
  shows "dtype a = Some (py_type d)
       \<and> (\<forall>a2 v a3. dtype a2 = dtype a \<and> value_setter call a2 v = Inr a3 \<longrightarrow> dtype a3 = dtype a)
       \<and> (\<forall>a2 v. dtype a2 = dtype a \<longrightarrow>
            value_setter call a2 v =
            (case check_arity (nargs a2) v of
               Inl e \<Rightarrow> Inl e
             | Inr VNone \<Rightarrow> Inr (a2\<lparr>cur_value := VNone\<rparr>)
             | Inr (VTuple xs) \<Rightarrow>
                 (case map_res (call (py_type d)) xs of
                    Inl e \<Rightarrow> Inl e | Inr ys \<Rightarrow> Inr (a2\<lparr>cur_value := VTuple ys\<rparr>))
             | Inr s \<Rightarrow>
                 (case call (py_type d) s of
                    Inl e \<Rightarrow> Inl e | Inr w \<Rightarrow> Inr (a2\<lparr>cur_value := w\<rparr>))))"
proof -
  have dt: "dtype a = Some (py_type d)"
    using assms
    by (auto simp: Argument_init_def rbind_def value_setter_def Let_def
             split: sum.splits if_splits option.splits)
  have keep: "dtype a3 = dtype a" if "dtype a2 = dtype a" and "value_setter call a2 v = Inr a3"
    for a2 v a3
    using that by (auto simp: value_setter_def rbind_def split: sum.splits)
  have "value_setter call a2 v =
            (case check_arity (nargs a2) v of
               Inl e \<Rightarrow> Inl e
             | Inr VNone \<Rightarrow> Inr (a2\<lparr>cur_value := VNone\<rparr>)
             | Inr (VTuple xs) \<Rightarrow>
                 (case map_res (call (py_type d)) xs of
                    Inl e \<Rightarrow> Inl e | Inr ys \<Rightarrow> Inr (a2\<lparr>cur_value := VTuple ys\<rparr>))
             | Inr s \<Rightarrow>
                 (case call (py_type d) s of
                    Inl e \<Rightarrow> Inl e | Inr w \<Rightarrow> Inr (a2\<lparr>cur_value := w\<rparr>)))"
    if "dtype a2 = dtype a" for a2 v
    using that
    by (simp add: value_setter_def rbind_def coerce_def dt split: sum.splits pyval.splits)
  with dt keep show ?thesis by blast
qed

theorem Argument_init_infers_dtype_witness:
  "Argument_init py_call ''--y'' None (VInt 2) None None False [] = Inr example_y
   \<and> dtype example_y = Some TInt
   \<and> value_setter py_call example_y (VStr ''3'') = Inr (example_y\<lparr>cur_value := VInt 3\<rparr>)
   \<and> dtype (example_y\<lparr>cur_value := VInt 3\<rparr>) = dtype example_y"
proof -
  have n: "VInt 2 \<noteq> VNone" by simp
  have ar: "check_arity (nargs example_y) (VStr ''3'') = Inr (VStr ''3'')" by code_simp
  have c: "py_call TInt (VStr ''3'') = Inr (VInt 3)" by code_simp
  from Argument_init_infers_dtype [OF example_y_declared n] ar c
  have "dtype example_y = Some TInt
    \<and> value_setter py_call example_y (VStr ''3'') = Inr (example_y\<lparr>cur_value := VInt 3\<rparr>)"
    by simp
  with example_y_declared show ?thesis by simp
qed

section \<open>The buffer of command-line tokens\<close>

text \<open>
  C10. When the tokenizer loop of \<open>parse_args\<close> has run over \<open>argv\<close>, the buffer holds
  at most one token per spelling, every token under its own spelling, and under a spelling
  the token built from the last occurrence of that spelling as a name in \<open>argv\<close>; a
  spelling that does not occur has no token.
\<close>

theorem tokenize_keeps_last_occurrence:
  assumes "tokenize argv c [] = Inr (b, c')"
  shows "distinct (map fst b)
       \<and> (\<forall>s. map_of b s = last_token s (tokens argv c))
       \<and> (\<forall>k u. (k, u) \<in> set b \<longrightarrow> un_name u = k)"
proof -
  from tokenize_buffer [OF assms] have
    s: "sorted_wrt (<) (map fst b)"
    and m: "\<And>s. map_of b s = (case last_token s (tokens argv c) of Some u \<Rightarrow> Some u | None \<Rightarrow> map_of [] s)"
    by auto
  from s have d: "distinct (map fst b)" by (simp add: strict_sorted_iff)
  from m have m': "map_of b s = last_token s (tokens argv c)" for s
    by (auto split: option.splits)
  have "un_name u = k" if "(k, u) \<in> set b" for k u
  proof -
    from that d have "map_of b k = Some u" by simp
    then have "last_token k (tokens argv c) = Some u" by (simp add: m')
    then show ?thesis by (auto simp: last_token_def find_Some_iff)
  qed
  with d m' show ?thesis by blast
qed

theorem tokenize_keeps_last_occurrence_witness:
  "tokenize [''--x'', ''1'', ''--y'', ''--x'', ''2'', ''3''] 0 []
     = Inr ([(''--x'', \<lparr>un_name = ''--x'', un_value = VTuple [VStr ''2'', VStr ''3''],
                        un_idx = Index CLI 2\<rparr>),
             (''--y'', \<lparr>un_name = ''--y'', un_value = VNone, un_idx = Index CLI 1\<rparr>)], 3)
   \<and> last_token ''--x'' (tokens [''--x'', ''1'', ''--y'', ''--x'', ''2'', ''3''] 0)
     = Some \<lparr>un_name = ''--x'', un_value = VTuple [VStr ''2'', VStr ''3''], un_idx = Index CLI 2\<rparr>
   \<and> last_token ''--z'' (tokens [''--x'', ''1'', ''--y'', ''--x'', ''2'', ''3''] 0) = None"
proof -
  let ?b = "[(''--x'', \<lparr>un_name = ''--x'', un_value = VTuple [VStr ''2'', VStr ''3''],
                        un_idx = Index CLI 2\<rparr>),
             (''--y'', \<lparr>un_name = ''--y'', un_value = VNone, un_idx = Index CLI 1\<rparr>)]"
  have h: "tokenize [''--x'', ''1'', ''--y'', ''--x'', ''2'', ''3''] 0 [] = Inr (?b, 3)"
    by code_simp
  from tokenize_keeps_last_occurrence [OF h]
  have "map_of ?b ''--x'' = last_token ''--x'' (tokens [''--x'', ''1'', ''--y'', ''--x'', ''2'', ''3''] 0)"
    and "map_of ?b ''--z'' = last_token ''--z'' (tokens [''--x'', ''1'', ''--y'', ''--x'', ''2'', ''3''] 0)"
    by blast+
  with h show ?thesis by simp
qed

end
